theory Spec2Isabelle
  imports
    Complex_Main
    "HOL-Library.Sublist"
    "HOL-Library.Char_ord"
    "HOL-Library.List_Lexorder"
    "HOL-Library.Product_Lexorder"
begin

section \<open>Data model\<close>

text \<open>
  A row of the table \<open>sites_mapping\<close>, with the columns that \<open>charger_sites\<close> selects.
  The type parameter is the representation of \<open>nominal_power\<close>: a JSON number or null
  (\<open>real option\<close>) in the rows the store returns, a pandas cell in the DataFrame.
  No arithmetic is ever done on a power, only comparisons, so a finite float is modelled
  by the real number it denotes. Dates are the ISO strings the store returns. The column
  \<open>id\<close> is the field \<open>site_id\<close> (\<open>id\<close> is the identity function of HOL).
\<close>

record 'p site_row =
  site_id :: int
  name :: "string option"
  code :: "string option"
  nominal_power :: 'p
  address :: "string option"
  commission_date :: "string option"
  client_map_id :: "int option"
  ignore_site :: bool

type_synonym site = "real option site_row"

text \<open>
  A row of \<open>clients_mapping\<close>: its columns \<open>id\<close> and \<open>name\<close> are the fields \<open>client_id\<close> and
  \<open>client_label\<close>.
\<close>

record client =
  client_id :: int
  client_label :: "string option"

text \<open>
  A Python dict keeps its keys in insertion order: it is modelled by an association list
  with distinct keys, read with \<open>map_of\<close> and written with \<open>dict_set\<close>.
  The dict built by \<open>charger_clients\<close> maps a client id to a client name (a JSON
  string or null).
\<close>

type_synonym ('k, 'v) dict = "('k \<times> 'v) list"

fun dict_set :: "('k, 'v) dict \<Rightarrow> 'k \<Rightarrow> 'v \<Rightarrow> ('k, 'v) dict" where
  "dict_set [] k v = [(k, v)]"
| "dict_set ((k', v') # m) k v = (if k' = k then (k, v) # m else (k', v') # dict_set m k v)"

type_synonym clients = "(int, string option) dict"

text \<open>
  A Python float is a finite number or NaN. A cell of the DataFrame column
  \<open>nominal_power\<close> is \<open>None\<close> (Python's None, kept in a column of dtype object) or
  \<open>Some f\<close> for a float \<open>f\<close> (a column of dtype float64, where a missing value is NaN).
\<close>

datatype pyfloat = NaN | Fin real

type_synonym cell = "pyfloat option"

text \<open>A row of the DataFrame \<open>df\<close>: the columns of a site and \<open>client_name\<close>.\<close>

record 'p site_view_row = "'p site_row" +
  client_name :: string

type_synonym site_view = "cell site_view_row"

section \<open>Python and pandas primitives used by the script\<close>

text \<open>Comparison of floats: every comparison with NaN is false.\<close>

fun py_le :: "pyfloat \<Rightarrow> pyfloat \<Rightarrow> bool" where
  "py_le (Fin a) (Fin b) = (a \<le> b)"
| "py_le _ _ = False"

fun py_ge :: "pyfloat \<Rightarrow> pyfloat \<Rightarrow> bool" where
  "py_ge (Fin a) (Fin b) = (a \<ge> b)"
| "py_ge _ _ = False"

fun py_lt :: "pyfloat \<Rightarrow> pyfloat \<Rightarrow> bool" where
  "py_lt (Fin a) (Fin b) = (a < b)"
| "py_lt _ _ = False"

text \<open>Truth value of a cell: None and zero are false, NaN is true (it is not zero).\<close>

fun truthy :: "cell \<Rightarrow> bool" where
  "truthy None = False"
| "truthy (Some NaN) = True"
| "truthy (Some (Fin x)) = (x \<noteq> 0)"

text \<open>
  \<open>float(a or d)\<close> for a cell \<open>a\<close> and a number \<open>d\<close>: \<open>a\<close> when it is true, \<open>d\<close> otherwise. The
  result is always a float, on which \<open>float\<close> is the identity. On strings, \<open>s or d\<close>: the
  empty string is false.
\<close>

definition or_float :: "cell \<Rightarrow> pyfloat \<Rightarrow> pyfloat" where
  "or_float a d = (if truthy a then (case a of Some f \<Rightarrow> f | None \<Rightarrow> d) else d)"

fun or_str :: "string option \<Rightarrow> string \<Rightarrow> string" where
  "or_str None d = d"
| "or_str (Some s) d = (if s = [] then d else s)"

text \<open>\<open>s or None\<close> and \<open>x or None\<close>, as the add form writes them.\<close>

definition str_or_None :: "string \<Rightarrow> string option" where
  "str_or_None s = (if s = [] then None else Some s)"

definition num_or_None :: "real \<Rightarrow> real option" where
  "num_or_None x = (if x = 0 then None else Some x)"

text \<open>
  The column \<open>nominal_power\<close> of \<open>pd.DataFrame(sites)\<close>, as pandas infers it from a list of
  dicts: when every value is null the column has dtype object and keeps None; as soon as
  one value is a number the column is float64 and every null becomes NaN. Text columns
  have dtype object and keep None, so they stay \<open>string option\<close>.
\<close>

definition power_column :: "real option list \<Rightarrow> cell list" where
  "power_column xs =
     (if list_all (\<lambda>x. x = None) xs then map (\<lambda>_. None) xs
      else map (\<lambda>x. case x of None \<Rightarrow> Some NaN | Some r \<Rightarrow> Some (Fin r)) xs)"

text \<open>\<open>Series.fillna(0)\<close> on a power cell: None and NaN are both missing.\<close>

fun fillna0 :: "cell \<Rightarrow> pyfloat" where
  "fillna0 None = Fin 0"
| "fillna0 (Some NaN) = Fin 0"
| "fillna0 (Some (Fin x)) = Fin x"

text \<open>
  \<open>Series.max()\<close> skips missing values (\<open>skipna\<close>); with no value left the result is NaN.
\<close>

fun present :: "cell list \<Rightarrow> real list" where
  "present [] = []"
| "present (Some (Fin x) # cs) = x # present cs"
| "present (_ # cs) = present cs"

definition series_max :: "cell list \<Rightarrow> pyfloat" where
  "series_max col = (case present col of [] \<Rightarrow> NaN | x # xs \<Rightarrow> Fin (fold max xs x))"

text \<open>
  \<open>Series.map(clients)\<close> on the column \<open>client_map_id\<close>: a null id, an id that is not a
  key of the dict and a key whose value is null all give a missing value.
\<close>

definition series_map :: "clients \<Rightarrow> int option list \<Rightarrow> string option list" where
  "series_map m col =
     map (\<lambda>k. case k of None \<Rightarrow> None
               | Some i \<Rightarrow> (case map_of m i of None \<Rightarrow> None | Some n \<Rightarrow> n)) col"

definition fillna_str :: "string \<Rightarrow> string option list \<Rightarrow> string list" where
  "fillna_str d col = map (\<lambda>c. case c of None \<Rightarrow> d | Some s \<Rightarrow> s) col"

section \<open>Data assembly\<close>

text \<open>
  The fallback label of an unassigned site, \<open>Non assign\<close> followed by the letter U+00E9
  (two bytes in UTF-8), and the selector that switches the client filter off.
\<close>

definition non_assigne :: string where
  "non_assigne = ''Non assign'' @ [CHR 0xC3, CHR 0xA9]"

definition tous :: string where
  "tous = ''Tous''"

definition mk_view :: "site \<Rightarrow> cell \<Rightarrow> string \<Rightarrow> site_view" where
  "mk_view s p c =
     \<lparr>site_id = site_id s, name = name s, code = code s, nominal_power = p,
      address = address s, commission_date = commission_date s,
      client_map_id = client_map_id s, ignore_site = ignore_site s, client_name = c\<rparr>"

text \<open>
  \<open>df = pd.DataFrame(sites)\<close> followed by
  \<open>df["client_name"] = df["client_map_id"].map(clients).fillna(non_assigne)\<close>.
\<close>

definition df :: "site list \<Rightarrow> clients \<Rightarrow> site_view list" where
  "df sites cl =
     map (\<lambda>(s, p, c). mk_view s p c)
       (zip sites
         (zip (power_column (map nominal_power sites))
              (fillna_str non_assigne (series_map cl (map client_map_id sites)))))"

section \<open>Filters\<close>

text \<open>
  The default of the widget \<open>Puissance max\<close>:
  \<open>float(df["nominal_power"].max() or 10000)\<close>.
\<close>

definition puissance_max :: "site_view list \<Rightarrow> pyfloat" where
  "puissance_max d = or_float (Some (series_max (map nominal_power d))) (Fin 10000)"

text \<open>
  \<open>df_filtre\<close>: the client filter, skipped for the selector \<open>Tous\<close>, then the power range
  on \<open>nominal_power.fillna(0)\<close>.
\<close>

definition df_filtre :: "site_view list \<Rightarrow> string \<Rightarrow> pyfloat \<Rightarrow> pyfloat \<Rightarrow> site_view list" where
  "df_filtre d filtre_client pmin pmax =
     (let d1 = (if filtre_client \<noteq> tous
                then filter (\<lambda>v. client_name v = filtre_client) d else d)
      in filter (\<lambda>v. py_ge (fillna0 (nominal_power v)) pmin \<and>
                       py_le (fillna0 (nominal_power v)) pmax) d1)"

section \<open>The remote store\<close>

text \<open>
  The store behind the gateway: the two tables, the next generated \<open>id\<close> and the column
  default of \<open>ignore_site\<close> (neither is set by an insert of this program).
\<close>

record database =
  sites_mapping :: "site list"
  clients_mapping :: "client list"
  next_id :: int
  ignore_default :: bool

text \<open>
  \<open>order("name")\<close>: ascending, nulls last, stable. Names are compared byte by byte.
\<close>

definition name_key :: "string option \<Rightarrow> bool \<times> string" where
  "name_key n = (case n of None \<Rightarrow> (True, []) | Some s \<Rightarrow> (False, s))"

definition select_sites :: "database \<Rightarrow> site list" where
  "select_sites d =
     sort_key (\<lambda>s. name_key (name s)) (filter (\<lambda>s. ignore_site s = False) (sites_mapping d))"

definition select_clients :: "database \<Rightarrow> client list" where
  "select_clients d = sort_key (\<lambda>c. name_key (client_label c)) (clients_mapping d)"

text \<open>The dict \<open>update_data\<close> of the edit form and the dict \<open>insert_data\<close> of the add form.\<close>

record update_dict =
  u_name :: string
  u_code :: string
  u_nominal_power :: pyfloat
  u_address :: string
  u_commission_date :: "string option"

record insert_dict =
  i_name :: string
  i_code :: "string option"
  i_nominal_power :: "real option"
  i_address :: "string option"
  i_commission_date :: "string option"
  i_client_map_id :: "int option"

text \<open>
  \<open>update(data).eq("id", site_id)\<close> sets the five columns of \<open>data\<close> in every row with
  that id and returns the rows it changed. NaN is not a JSON number: such an update is
  refused (see \<open>gw_update\<close>), so here the power is a number.
\<close>

definition set_columns :: "update_dict \<Rightarrow> real \<Rightarrow> site \<Rightarrow> site" where
  "set_columns data x s =
     s\<lparr>name := Some (u_name data), code := Some (u_code data), nominal_power := Some x,
       address := Some (u_address data), commission_date := u_commission_date data\<rparr>"

definition update_rows :: "int \<Rightarrow> update_dict \<Rightarrow> real \<Rightarrow> site list \<Rightarrow> site list" where
  "update_rows i data x rows = map (\<lambda>s. if site_id s = i then set_columns data x s else s) rows"

definition new_row :: "database \<Rightarrow> insert_dict \<Rightarrow> site" where
  "new_row d data =
     \<lparr>site_id = next_id d, name = Some (i_name data), code = i_code data,
      nominal_power = i_nominal_power data, address = i_address data,
      commission_date = i_commission_date data, client_map_id = i_client_map_id data,
      ignore_site = ignore_default d\<rparr>"

section \<open>Session state: the store, the network and the two caches\<close>

datatype event = Select_sites | Select_clients | Update_call int | Insert_call | Clear_sites

record world =
  db :: database
  online :: bool
  sites_cache :: "(real \<times> site list) option"
  clients_cache :: "(real \<times> clients) option"
  calls :: "event list"

datatype error = Store_error | Value_below_min | Key_error

text \<open>
  The gateway calls (\<open>supabase.table(...)...execute()\<close>). Each one is recorded in \<open>calls\<close>;
  it raises when the store cannot be reached, and an update also when its payload cannot
  be sent as JSON (a NaN power).
\<close>

definition gw_select_sites :: "world \<Rightarrow> world \<times> (error + site list)" where
  "gw_select_sites w =
     (w\<lparr>calls := calls w @ [Select_sites]\<rparr>,
      if online w then Inr (select_sites (db w)) else Inl Store_error)"

definition gw_select_clients :: "world \<Rightarrow> world \<times> (error + client list)" where
  "gw_select_clients w =
     (w\<lparr>calls := calls w @ [Select_clients]\<rparr>,
      if online w then Inr (select_clients (db w)) else Inl Store_error)"

definition gw_update :: "int \<Rightarrow> update_dict \<Rightarrow> world \<Rightarrow> world \<times> (error + site list)" where
  "gw_update i data w =
     (let w1 = w\<lparr>calls := calls w @ [Update_call i]\<rparr> in
      case u_nominal_power data of
        NaN \<Rightarrow> (w1, Inl Store_error)
      | Fin x \<Rightarrow>
          if online w
          then (w1\<lparr>db := (db w)\<lparr>sites_mapping := update_rows i data x (sites_mapping (db w))\<rparr>\<rparr>,
                Inr (map (set_columns data x) (filter (\<lambda>s. site_id s = i) (sites_mapping (db w)))))
          else (w1, Inl Store_error))"

definition gw_insert :: "insert_dict \<Rightarrow> world \<Rightarrow> world \<times> (error + site list)" where
  "gw_insert data w =
     (let w1 = w\<lparr>calls := calls w @ [Insert_call]\<rparr> in
      if online w
      then (w1\<lparr>db := (db w)\<lparr>sites_mapping := sites_mapping (db w) @ [new_row (db w) data],
                               next_id := next_id (db w) + 1\<rparr>\<rparr>,
            Inr [new_row (db w) data])
      else (w1, Inl Store_error))"

section \<open>Cached reads and writes\<close>

text \<open>
  The decorator \<open>st.cache_data(ttl=...)\<close> on a function without arguments: one slot holding
  the value and the time it was stored. An entry whose age is below the ttl is returned
  without running the body; otherwise the entry is dropped, the body runs, and its result
  is stored with the current time. An exception of the body stores nothing.
\<close>

definition cache_data ::
  "real \<Rightarrow> (world \<Rightarrow> (real \<times> 'a) option) \<Rightarrow> ((real \<times> 'a) option \<Rightarrow> world \<Rightarrow> world) \<Rightarrow>
   (world \<Rightarrow> world \<times> (error + 'a)) \<Rightarrow> real \<Rightarrow> world \<Rightarrow> world \<times> (error + 'a)" where
  "cache_data ttl slot put body now w =
     (case (case slot w of None \<Rightarrow> None
            | Some (t, v) \<Rightarrow> if now - t < ttl then Some v else None) of
        Some v \<Rightarrow> (w, Inr v)
      | None \<Rightarrow>
          (case body (put None w) of
             (w', Inl e) \<Rightarrow> (w', Inl e)
           | (w', Inr v) \<Rightarrow> (put (Some (now, v)) w', Inr v)))"

definition charger_sites :: "real \<Rightarrow> world \<Rightarrow> world \<times> (error + site list)" where
  "charger_sites = cache_data 60 sites_cache (\<lambda>c w. w\<lparr>sites_cache := c\<rparr>) gw_select_sites"

text \<open>\<open>{c["id"]: c["name"] for c in response.data}\<close>\<close>

definition clients_dict :: "client list \<Rightarrow> clients" where
  "clients_dict rows = foldl (\<lambda>m c. dict_set m (client_id c) (client_label c)) [] rows"

definition charger_clients_body :: "world \<Rightarrow> world \<times> (error + clients)" where
  "charger_clients_body w =
     (case gw_select_clients w of
        (w', Inl e) \<Rightarrow> (w', Inl e)
      | (w', Inr rows) \<Rightarrow> (w', Inr (clients_dict rows)))"

definition charger_clients :: "real \<Rightarrow> world \<Rightarrow> world \<times> (error + clients)" where
  "charger_clients =
     cache_data 300 clients_cache (\<lambda>c w. w\<lparr>clients_cache := c\<rparr>) charger_clients_body"

text \<open>\<open>charger_sites.clear()\<close>\<close>

definition charger_sites_clear :: "world \<Rightarrow> world" where
  "charger_sites_clear w = w\<lparr>sites_cache := None, calls := calls w @ [Clear_sites]\<rparr>"

definition sauvegarder_site :: "int \<Rightarrow> update_dict \<Rightarrow> world \<Rightarrow> world \<times> (error + site list)" where
  "sauvegarder_site i data w =
     (case gw_update i data w of
        (w', Inl e) \<Rightarrow> (w', Inl e)
      | (w', Inr rows) \<Rightarrow> (charger_sites_clear w', Inr rows))"

definition ajouter_site :: "insert_dict \<Rightarrow> world \<Rightarrow> world \<times> (error + site list)" where
  "ajouter_site data w =
     (case gw_insert data w of
        (w', Inl e) \<Rightarrow> (w', Inl e)
      | (w', Inr rows) \<Rightarrow> (charger_sites_clear w', Inr rows))"

section \<open>Widgets\<close>

text \<open>
  A widget returns what the user entered or, when the user left it alone, its default.
  \<open>st.number_input\<close> raises when the default is below \<open>min_value\<close>. \<open>st.selectbox\<close> over a
  non-empty list of options returns the chosen option, the first one by default.
\<close>

definition widget :: "'a \<Rightarrow> 'a option \<Rightarrow> 'a" where
  "widget dflt user = (case user of None \<Rightarrow> dflt | Some x \<Rightarrow> x)"

definition number_input :: "real \<Rightarrow> pyfloat \<Rightarrow> real option \<Rightarrow> error + pyfloat" where
  "number_input min_value dflt user =
     (if py_lt dflt (Fin min_value) then Inl Value_below_min
      else Inr (case user of None \<Rightarrow> dflt | Some x \<Rightarrow> Fin x))"

definition selectbox :: "'a \<Rightarrow> 'a list \<Rightarrow> 'a option \<Rightarrow> 'a" where
  "selectbox first rest user =
     (case user of None \<Rightarrow> first
      | Some c \<Rightarrow> if c \<in> set (first # rest) then c else first)"

datatype ui_msg =
    Warning_no_site | Info_no_match
  | Success_update string | Success_insert string
  | Error_update error | Error_insert error | Error_name_required

text \<open>
  How a part of the script ends: an exception leaves it, \<open>st.rerun()\<close> stops the run, or
  the script goes on. The messages are the ones shown to the user.
\<close>

datatype flow = Raise error | Rerun "ui_msg list" | Continue "ui_msg list"

section \<open>The edit form\<close>

record edit_widgets =
  new_name :: string
  new_code :: string
  new_power :: pyfloat
  new_address :: string
  new_date :: "string option"

text \<open>What the user changed in the edit form; \<open>None\<close> is a field left as pre-filled.\<close>

record edit_changes =
  ch_name :: "string option"
  ch_code :: "string option"
  ch_power :: "real option"
  ch_address :: "string option"
  ch_date :: "string option option"

definition unchanged :: edit_changes where
  "unchanged = \<lparr>ch_name = None, ch_code = None, ch_power = None, ch_address = None, ch_date = None\<rparr>"

text \<open>
  The \<open>value=\<close> arguments of the form, from the selected record \<open>site\<close> of
  \<open>df_filtre.to_dict('records')\<close>. Parsing an ISO date and printing it again gives the
  same string, so the date widget holds the string.
\<close>

definition prefill_power :: "site_view \<Rightarrow> pyfloat" where
  "prefill_power site = or_float (nominal_power site) (Fin 0)"

definition prefill_date :: "site_view \<Rightarrow> string option" where
  "prefill_date site =
     (case commission_date site of None \<Rightarrow> None | Some s \<Rightarrow> if s = [] then None else Some s)"

definition form_edit :: "site_view \<Rightarrow> edit_changes \<Rightarrow> error + edit_widgets" where
  "form_edit site ch =
     (case number_input 0 (prefill_power site) (ch_power ch) of
        Inl e \<Rightarrow> Inl e
      | Inr p \<Rightarrow>
          Inr \<lparr>new_name = widget (or_str (name site) []) (ch_name ch),
               new_code = widget (or_str (code site) []) (ch_code ch),
               new_power = p,
               new_address = widget (or_str (address site) []) (ch_address ch),
               new_date = widget (prefill_date site) (ch_date ch)\<rparr>)"

definition update_data :: "edit_widgets \<Rightarrow> update_dict" where
  "update_data ws =
     \<lparr>u_name = new_name ws, u_code = new_code ws, u_nominal_power = new_power ws,
      u_address = new_address ws, u_commission_date = new_date ws\<rparr>"

definition form_edit_submit :: "site_view \<Rightarrow> edit_widgets \<Rightarrow> world \<Rightarrow> world \<times> flow" where
  "form_edit_submit site ws w =
     (case sauvegarder_site (site_id site) (update_data ws) w of
        (w', Inr _) \<Rightarrow> (w', Rerun [Success_update (new_name ws)])
      | (w', Inl e) \<Rightarrow> (w', Continue [Error_update e]))"

section \<open>The add form\<close>

text \<open>
  The widgets of the add form. The client selectbox offers the empty string and
  \<open>str(k)\<close> for every client id \<open>k\<close>, and the script reads it back with \<open>int\<close>: the choice
  is modelled by \<open>None\<close> or the id itself.
\<close>

record add_widgets =
  add_name :: string
  add_code :: string
  add_power :: real
  add_address :: string
  add_date :: "string option"
  add_client :: "int option"

definition insert_data :: "add_widgets \<Rightarrow> insert_dict" where
  "insert_data ws =
     \<lparr>i_name = add_name ws, i_code = str_or_None (add_code ws),
      i_nominal_power = num_or_None (add_power ws),
      i_address = str_or_None (add_address ws),
      i_commission_date = add_date ws,
      i_client_map_id = add_client ws\<rparr>"

definition form_ajout_submit :: "add_widgets \<Rightarrow> world \<Rightarrow> world \<times> flow" where
  "form_ajout_submit ws w =
     (if add_name ws = [] then (w, Continue [Error_name_required])
      else
        (case ajouter_site (insert_data ws) w of
           (w', Inr _) \<Rightarrow> (w', Rerun [Success_insert (add_name ws)])
         | (w', Inl e) \<Rightarrow> (w', Continue [Error_insert e])))"

section \<open>One run of the script\<close>

datatype action = No_submit | Submit_edit edit_changes | Submit_add add_widgets

record ui =
  ui_client :: "string option"
  ui_min :: "real option"
  ui_max :: "real option"
  ui_edit_select :: "string option"
  ui_action :: action

text \<open>
  The options of the client selectbox after \<open>Tous\<close>:
  \<open>sorted(df["client_name"].dropna().unique().tolist())\<close>; no client name is missing.
\<close>

definition clients_uniques :: "site_view list \<Rightarrow> string list" where
  "clients_uniques d = sort (remdups (map client_name d))"

text \<open>\<open>str\<close> of a text column value, and the label of a site in the edit selectbox.\<close>

definition py_str :: "string option \<Rightarrow> string" where
  "py_str x = (case x of None \<Rightarrow> ''None'' | Some s \<Rightarrow> s)"

definition site_label :: "site_view \<Rightarrow> string" where
  "site_label s = py_str (name s) @ '' ('' @ py_str (code s) @ '')''"

definition sites_options :: "site_view list \<Rightarrow> (string, site_view) dict" where
  "sites_options d = foldl (\<lambda>m s. dict_set m (site_label s) s) [] d"

definition tab_edit :: "site_view list \<Rightarrow> ui \<Rightarrow> world \<Rightarrow> world \<times> flow" where
  "tab_edit shown u w =
     (case map fst (sites_options shown) of
        [] \<Rightarrow> (w, Continue [Info_no_match])
      | k # ks \<Rightarrow>
          (case map_of (sites_options shown) (selectbox k ks (ui_edit_select u)) of
             None \<Rightarrow> (w, Raise Key_error)
           | Some site \<Rightarrow>
               (case form_edit site (case ui_action u of Submit_edit ch \<Rightarrow> ch | _ \<Rightarrow> unchanged) of
                  Inl e \<Rightarrow> (w, Raise e)
                | Inr ws \<Rightarrow>
                    (case ui_action u of
                       Submit_edit _ \<Rightarrow> form_edit_submit site ws w
                     | _ \<Rightarrow> (w, Continue [])))))"

definition tab_ajout :: "ui \<Rightarrow> world \<Rightarrow> world \<times> flow" where
  "tab_ajout u w =
     (case ui_action u of Submit_add ws \<Rightarrow> form_ajout_submit ws w | _ \<Rightarrow> (w, Continue []))"

text \<open>
  What a run leaves on the page: the table of the list tab (\<open>df_filtre\<close>) and the
  messages. A run ends with an exception that nothing caught, with \<open>st.stop()\<close> when there
  is no site, or with the page (and a rerun when a write succeeded).
\<close>

record page =
  table :: "site_view list"
  msgs :: "ui_msg list"
  rerun :: bool

datatype outcome = Uncaught error "site_view list" | Stopped "ui_msg list" | Page page

definition tabs :: "site_view list \<Rightarrow> ui \<Rightarrow> world \<Rightarrow> world \<times> outcome" where
  "tabs shown u w =
     (case tab_edit shown u w of
        (w1, Raise e) \<Rightarrow> (w1, Uncaught e shown)
      | (w1, Rerun m) \<Rightarrow> (w1, Page \<lparr>table = shown, msgs = m, rerun = True\<rparr>)
      | (w1, Continue m) \<Rightarrow>
          (case tab_ajout u w1 of
             (w2, Raise e) \<Rightarrow> (w2, Uncaught e shown)
           | (w2, Rerun m') \<Rightarrow> (w2, Page \<lparr>table = shown, msgs = m @ m', rerun = True\<rparr>)
           | (w2, Continue m') \<Rightarrow> (w2, Page \<lparr>table = shown, msgs = m @ m', rerun = False\<rparr>)))"

definition main :: "real \<Rightarrow> ui \<Rightarrow> world \<Rightarrow> world \<times> outcome" where
  "main now u w =
     (case charger_sites now w of
        (w1, Inl e) \<Rightarrow> (w1, Uncaught e [])
      | (w1, Inr sites) \<Rightarrow>
          (case charger_clients now w1 of
             (w2, Inl e) \<Rightarrow> (w2, Uncaught e [])
           | (w2, Inr cl) \<Rightarrow>
               if sites = [] then (w2, Stopped [Warning_no_site])
               else
                 (let d = df sites cl;
                      filtre_client = selectbox tous (clients_uniques d) (ui_client u)
                  in case number_input 0 (Fin 0) (ui_min u) of
                       Inl e \<Rightarrow> (w2, Uncaught e [])
                     | Inr pmin \<Rightarrow>
                         (case number_input 0 (puissance_max d) (ui_max u) of
                            Inl e \<Rightarrow> (w2, Uncaught e [])
                          | Inr pmax \<Rightarrow> tabs (df_filtre d filtre_client pmin pmax) u w2))))"

section \<open>Specification-side notions\<close>

text \<open>
  The effective power as the specification words it: the nominal power when present,
  zero otherwise.
\<close>

definition effective_power :: "site_view \<Rightarrow> real" where
  "effective_power v = (case nominal_power v of Some (Fin x) \<Rightarrow> x | _ \<Rightarrow> 0)"

text \<open>The site a view was built from: the view without \<open>client_name\<close>, a missing power read as null.\<close>

definition site_of :: "site_view \<Rightarrow> site" where
  "site_of v =
     \<lparr>site_id = site_id v, name = name v, code = code v,
      nominal_power = (case nominal_power v of Some (Fin x) \<Rightarrow> Some x | _ \<Rightarrow> None),
      address = address v, commission_date = commission_date v,
      client_map_id = client_map_id v, ignore_site = ignore_site v\<rparr>"

text \<open>
  The resolution rule as the specification words it: the client's name when the site has a
  client id and the mapping has a name for it, the fallback label otherwise.
\<close>

definition resolved_name :: "clients \<Rightarrow> site \<Rightarrow> string" where
  "resolved_name cl s =
     (case client_map_id s of
        None \<Rightarrow> non_assigne
      | Some k \<Rightarrow> (case map_of cl k of Some (Some n) \<Rightarrow> n | _ \<Rightarrow> non_assigne))"

text \<open>The add form with a name and every other widget left at its default.\<close>

definition name_only :: "string \<Rightarrow> add_widgets" where
  "name_only n =
     \<lparr>add_name = n, add_code = [], add_power = 0, add_address = [], add_date = None,
      add_client = None\<rparr>"

text \<open>
  The states a session can be in: it starts with empty caches; the store and the network
  change under it at any time; every run of the script, by any user, moves it on.
\<close>

inductive reachable :: "world \<Rightarrow> bool" where
  start: "reachable \<lparr>db = d, online = b, sites_cache = None, clients_cache = None, calls = []\<rparr>"
| outside: "reachable w \<Longrightarrow> reachable (w\<lparr>db := d, online := b\<rparr>)"
| run: "reachable w \<Longrightarrow> reachable (fst (main now u w))"

text \<open>A miss: the slot is empty or its entry is at least \<open>ttl\<close> old.\<close>

definition miss :: "real \<Rightarrow> real \<Rightarrow> (real \<times> 'a) option \<Rightarrow> bool" where
  "miss ttl now slot = (case slot of None \<Rightarrow> True | Some (t, v) \<Rightarrow> \<not> now - t < ttl)"

text \<open>The invariant of the sites cache: no cached row is marked \<open>ignore_site\<close>.\<close>

definition cache_clean :: "world \<Rightarrow> bool" where
  "cache_clean w =
     (case sites_cache w of None \<Rightarrow> True | Some (t, rows) \<Rightarrow> list_all (\<lambda>s. \<not> ignore_site s) rows)"

section \<open>Example data\<close>

text \<open>The sites and the client of the specification's scenarios.\<close>

definition alpha :: site where
  "alpha = \<lparr>site_id = 1, name = Some ''Alpha'', code = Some ''A1'', nominal_power = Some 50,
     address = None, commission_date = None, client_map_id = Some 1, ignore_site = False\<rparr>"

definition beta :: site where
  "beta = \<lparr>site_id = 2, name = Some ''Beta'', code = None, nominal_power = Some 200,
     address = None, commission_date = None, client_map_id = None, ignore_site = False\<rparr>"

definition hidden :: site where
  "hidden = \<lparr>site_id = 3, name = Some ''Old'', code = None, nominal_power = None,
     address = None, commission_date = None, client_map_id = None, ignore_site = True\<rparr>"

definition acme :: clients where
  "acme = [(1, Some ''Acme'')]"

definition store0 :: database where
  "store0 = \<lparr>sites_mapping = [alpha, beta, hidden],
     clients_mapping = [\<lparr>client_id = 1, client_label = Some ''Acme''\<rparr>],
     next_id = 4, ignore_default = False\<rparr>"

definition world0 :: world where
  "world0 = \<lparr>db = store0, online = True, sites_cache = None, clients_cache = None, calls = []\<rparr>"

text \<open>A session whose sites cache is filled, and the update of scenario C (power 75).\<close>

definition cached_world :: world where
  "cached_world = world0\<lparr>sites_cache := Some (0, [alpha, beta])\<rparr>"

definition power75 :: update_dict where
  "power75 = \<lparr>u_name = ''Alpha'', u_code = ''A1'', u_nominal_power = Fin 75, u_address = [],
     u_commission_date = None\<rparr>"

definition ui0 :: ui where
  "ui0 = \<lparr>ui_client = None, ui_min = None, ui_max = None, ui_edit_select = None,
     ui_action = No_submit\<rparr>"

section \<open>Data assembly and filters: properties\<close>

lemma fillna0_effective: "fillna0 (nominal_power v) = Fin (effective_power v)"
  by (cases "nominal_power v" rule: fillna0.cases) (simp_all add: effective_power_def)

lemma length_power_column: "length (power_column xs) = length xs"
  by (simp add: power_column_def)

lemma length_df: "length (df sites cl) = length sites"
  by (simp add: df_def length_power_column fillna_str_def series_map_def)

lemma df_nth:
  assumes "i < length sites"
  shows "df sites cl ! i =
     mk_view (sites ! i) (power_column (map nominal_power sites) ! i)
       (resolved_name cl (sites ! i))"
  using assms
  by (simp add: df_def length_power_column fillna_str_def series_map_def resolved_name_def
      split: option.splits)

lemma power_column_nth:
  assumes "i < length xs"
  shows "(case power_column xs ! i of Some (Fin x) \<Rightarrow> Some x | _ \<Rightarrow> None) = xs ! i"
  using assms by (auto simp: power_column_def list_all_length split: option.splits)

lemma map_nominal_power_df:
  "map nominal_power (df sites cl) = power_column (map nominal_power sites)"
  by (rule nth_equalityI) (simp_all add: length_df length_power_column df_nth mk_view_def)

lemma scenario_A_assembly:
  "map client_name (df [alpha, beta] acme) = [''Acme'', non_assigne]"
  by (simp add: df_def alpha_def beta_def acme_def power_column_def fillna_str_def
      series_map_def mk_view_def)

lemma scenario_A_filter:
  "map site_id (df_filtre (df [alpha, beta] acme) tous (Fin 0) (Fin 100)) = [1]"
  by (simp add: df_filtre_def df_def alpha_def beta_def acme_def power_column_def fillna_str_def
      series_map_def mk_view_def)

lemma scenario_B_filter:
  "map site_id (df_filtre (df [alpha, beta] acme) ''Acme'' (Fin 0) (Fin 1000)) = [1] \<and>
   df_filtre (df [alpha, beta] acme) ''Acme'' (Fin 60) (Fin 1000) = []"
  by (simp add: df_filtre_def df_def alpha_def beta_def acme_def power_column_def fillna_str_def
      series_map_def mk_view_def tous_def non_assigne_def)

text \<open>
  C1. For every collection of views, every client selector and every power range
  \<open>[lo, hi]\<close>, the filter returns the views of the input, in their original order, that
  satisfy (the selector is \<open>Tous\<close> or equals the view's client name) and
  \<open>lo \<le> effective_power \<le> hi\<close>; the result is a subsequence of the input, and it is empty
  when \<open>hi < lo\<close>.
\<close>

theorem df_filtre_correct:
  "df_filtre d c (Fin lo) (Fin hi) =
     filter (\<lambda>v. (c = tous \<or> client_name v = c) \<and>
                  lo \<le> effective_power v \<and> effective_power v \<le> hi) d
   \<and> subseq (df_filtre d c (Fin lo) (Fin hi)) d
   \<and> (hi < lo \<longrightarrow> df_filtre d c (Fin lo) (Fin hi) = [])"
proof -
  have eq: "df_filtre d c (Fin lo) (Fin hi) =
     filter (\<lambda>v. (c = tous \<or> client_name v = c) \<and>
                  lo \<le> effective_power v \<and> effective_power v \<le> hi) d"
    by (auto simp: df_filtre_def Let_def fillna0_effective intro: filter_cong)
  have sub: "subseq (df_filtre d c (Fin lo) (Fin hi)) d"
    unfolding eq by simp
  have empty: "hi < lo \<longrightarrow> df_filtre d c (Fin lo) (Fin hi) = []"
    unfolding eq by (auto simp: filter_empty_conv)
  from eq sub empty show ?thesis by blast
qed

theorem df_filtre_correct_witness:
  "(50::real) < 60 \<and> df_filtre (df [alpha, beta] acme) ''Acme'' (Fin 60) (Fin 50) = []"
proof -
  have h: "(50::real) < 60" by simp
  with df_filtre_correct[of "df [alpha, beta] acme" "''Acme''" 60 50]
  have "df_filtre (df [alpha, beta] acme) ''Acme'' (Fin 60) (Fin 50) = []" by blast
  with h show ?thesis by simp
qed

text \<open>A range whose upper bound is NaN selects nothing.\<close>

lemma df_filtre_NaN: "df_filtre d c lo NaN = []"
  by (simp add: df_filtre_def Let_def)

text \<open>
  C4. For every site collection and client mapping, the assembled list has the length of
  the site collection, its i-th view is built from the i-th site, and the view's client
  name is the mapped name when the site's client id has a name in the mapping and the
  fallback label otherwise (null id, id without entry); the name is a string in every
  case and no lookup fails.
\<close>

theorem df_assembly:
  "length (df sites cl) = length sites \<and>
   map site_of (df sites cl) = sites \<and>
   map client_name (df sites cl) = map (resolved_name cl) sites"
proof -
  have "map site_of (df sites cl) = sites"
    by (rule nth_equalityI)
      (simp_all add: length_df df_nth site_of_def mk_view_def power_column_nth)
  moreover have "map client_name (df sites cl) = map (resolved_name cl) sites"
    by (rule nth_equalityI) (simp_all add: length_df df_nth mk_view_def)
  ultimately show ?thesis by (simp add: length_df)
qed

subsection \<open>The default of the upper bound\<close>

lemma present_set: "set (present col) = {x. Some (Fin x) \<in> set col}"
  by (induction col rule: present.induct) auto

lemma series_max_present:
  assumes "present col \<noteq> []"
  shows "series_max col = Fin (Max {x. Some (Fin x) \<in> set col})"
proof -
  obtain x xs where p: "present col = x # xs" using assms by (cases "present col") auto
  have "set (x # xs) = {x. Some (Fin x) \<in> set col}" using present_set[of col] p by simp
  moreover have "fold max xs x = Max (set (x # xs))" by (simp only: Max.set_eq_fold)
  ultimately show ?thesis by (simp add: series_max_def p del: set_simps)
qed

lemma power_column_present:
  "{x. Some (Fin x) \<in> set (power_column xs)} = {x. Some x \<in> set xs}"
  by (auto simp: power_column_def list_all_iff split: option.splits) force

text \<open>
  With a power present, the default is the largest power, unless that is zero: zero is
  false, and the fallback is taken.
\<close>

lemma puissance_max_present:
  assumes "\<exists>s \<in> set sites. nominal_power s \<noteq> None"
  shows "puissance_max (df sites cl) =
     (let m = Max {x. \<exists>s \<in> set sites. nominal_power s = Some x}
      in if m = 0 then Fin 10000 else Fin m)"
proof -
  let ?col = "power_column (map nominal_power sites)"
  have s: "{x. Some (Fin x) \<in> set ?col} = {x. \<exists>s \<in> set sites. nominal_power s = Some x}"
    unfolding power_column_present by force
  from assms obtain s x where "s \<in> set sites" "nominal_power s = Some x" by auto
  then have "x \<in> {x. Some (Fin x) \<in> set ?col}" unfolding s by auto
  then have "present ?col \<noteq> []" using present_set[of ?col] by auto
  from series_max_present[OF this] show ?thesis
    by (simp add: puissance_max_def map_nominal_power_df s or_float_def Let_def)
qed

text \<open>With no power present the maximum is NaN; NaN is true, and it is kept.\<close>

lemma puissance_max_all_null:
  assumes "\<forall>s \<in> set sites. nominal_power s = None"
  shows "puissance_max (df sites cl) = NaN"
proof -
  have "power_column (map nominal_power sites) = map (\<lambda>_. None) sites"
    using assms by (auto simp: power_column_def list_all_iff)
  moreover have "present (map (\<lambda>_. None) sites) = []" by (induction sites) auto
  ultimately show ?thesis
    by (simp add: puissance_max_def map_nominal_power_df series_max_def or_float_def)
qed

text \<open>
  C5. The default upper bound should be the largest power of the collection, and 10000
  when no power is present. The script computes \<open>max() or 10000\<close>: on a collection whose
  largest power is 0 it gives 10000, not 0; on a collection without any power the maximum
  is NaN, which \<open>or\<close> keeps, so the default is NaN, not 10000, and the range filter with
  that bound shows nothing.
\<close>

theorem puissance_max_falls_back_wrongly:
  "puissance_max (df [alpha\<lparr>nominal_power := Some 0\<rparr>] acme) = Fin 10000 \<and>
   puissance_max (df [alpha\<lparr>nominal_power := None\<rparr>] acme) = NaN \<and>
   df_filtre (df [alpha\<lparr>nominal_power := None\<rparr>] acme) tous (Fin 0)
     (puissance_max (df [alpha\<lparr>nominal_power := None\<rparr>] acme)) = []"
  by (simp add: puissance_max_def df_filtre_def df_def alpha_def acme_def power_column_def
      fillna_str_def series_map_def mk_view_def or_float_def series_max_def)

section \<open>The cache layer: properties\<close>

lemma cache_data_hit:
  assumes "slot w = Some (t, v)" "now - t < ttl"
  shows "cache_data ttl slot put body now w = (w, Inr v)"
  using assms by (simp add: cache_data_def)

lemma cache_data_miss:
  assumes "miss ttl now (slot w)"
  shows "cache_data ttl slot put body now w =
     (case body (put None w) of
        (w', Inl e) \<Rightarrow> (w', Inl e)
      | (w', Inr v) \<Rightarrow> (put (Some (now, v)) w', Inr v))"
  using assms by (auto simp: cache_data_def miss_def split: option.splits)

lemma charger_sites_hit:
  assumes "sites_cache w = Some (t, v)" "now - t < 60"
  shows "charger_sites now w = (w, Inr v)"
  unfolding charger_sites_def using assms by (rule cache_data_hit)

lemma charger_sites_fetch:
  assumes "miss 60 now (sites_cache w)" "online w"
  shows "charger_sites now w =
     (w\<lparr>sites_cache := Some (now, select_sites (db w)), calls := calls w @ [Select_sites]\<rparr>,
      Inr (select_sites (db w)))"
  using assms(2) by (simp add: charger_sites_def cache_data_miss[where slot=sites_cache and w=w, OF assms(1)] gw_select_sites_def)

lemma charger_sites_fail:
  assumes "miss 60 now (sites_cache w)" "\<not> online w"
  shows "charger_sites now w =
     (w\<lparr>sites_cache := None, calls := calls w @ [Select_sites]\<rparr>, Inl Store_error)"
  using assms(2) by (simp add: charger_sites_def cache_data_miss[where slot=sites_cache and w=w, OF assms(1)] gw_select_sites_def)

lemma charger_clients_hit:
  assumes "clients_cache w = Some (t, v)" "now - t < 300"
  shows "charger_clients now w = (w, Inr v)"
  unfolding charger_clients_def using assms by (rule cache_data_hit)

lemma charger_clients_fetch:
  assumes "miss 300 now (clients_cache w)" "online w"
  shows "charger_clients now w =
     (w\<lparr>clients_cache := Some (now, clients_dict (select_clients (db w))),
        calls := calls w @ [Select_clients]\<rparr>,
      Inr (clients_dict (select_clients (db w))))"
  using assms(2)
  by (simp add: charger_clients_def cache_data_miss[where slot=clients_cache and w=w, OF assms(1)] charger_clients_body_def
      gw_select_clients_def)

lemma charger_clients_fail:
  assumes "miss 300 now (clients_cache w)" "\<not> online w"
  shows "charger_clients now w =
     (w\<lparr>clients_cache := None, calls := calls w @ [Select_clients]\<rparr>, Inl Store_error)"
  using assms(2)
  by (simp add: charger_clients_def cache_data_miss[where slot=clients_cache and w=w, OF assms(1)] charger_clients_body_def
      gw_select_clients_def)

lemma miss_iff: "miss ttl now (Some (t, v)) = (ttl \<le> now - t)"
  by (simp add: miss_def not_less)

text \<open>
  C3. Take a read at \<open>t1\<close> that finds no entry, or an entry at least as old as the window
  (60 seconds for \<open>charger_sites\<close>, 300 for \<open>charger_clients\<close>), with the store in reach: it makes
  one gateway call and stores the result with the time \<open>t1\<close>. A second read at \<open>t2\<close> less than
  the window after the first returns the stored value and changes nothing: no further
  gateway call. A second read at \<open>t2\<close> at least the window after the first makes exactly one
  new gateway call, stores the result with the time \<open>t2\<close> and returns it.
\<close>

theorem ttl_window:
  "(miss 60 t1 (sites_cache w) \<and> online w \<longrightarrow>
      (let v = select_sites (db w);
           w1 = w\<lparr>sites_cache := Some (t1, v), calls := calls w @ [Select_sites]\<rparr>
       in charger_sites t1 w = (w1, Inr v) \<and>
          (t2 - t1 < 60 \<longrightarrow> charger_sites t2 w1 = (w1, Inr v)) \<and>
          (60 \<le> t2 - t1 \<longrightarrow>
             charger_sites t2 w1 =
               (w1\<lparr>sites_cache := Some (t2, v), calls := calls w1 @ [Select_sites]\<rparr>, Inr v)))) \<and>
   (miss 300 t1 (clients_cache w) \<and> online w \<longrightarrow>
      (let c = clients_dict (select_clients (db w));
           w1 = w\<lparr>clients_cache := Some (t1, c), calls := calls w @ [Select_clients]\<rparr>
       in charger_clients t1 w = (w1, Inr c) \<and>
          (t2 - t1 < 300 \<longrightarrow> charger_clients t2 w1 = (w1, Inr c)) \<and>
          (300 \<le> t2 - t1 \<longrightarrow>
             charger_clients t2 w1 =
               (w1\<lparr>clients_cache := Some (t2, c), calls := calls w1 @ [Select_clients]\<rparr>,
                Inr c))))"
proof (intro conjI impI)
  assume a: "miss 60 t1 (sites_cache w) \<and> online w"
  define v where "v = select_sites (db w)"
  define w1 where "w1 = w\<lparr>sites_cache := Some (t1, v), calls := calls w @ [Select_sites]\<rparr>"
  have c: "sites_cache w1 = Some (t1, v)" and on: "online w1" and d: "select_sites (db w1) = v"
    using a by (simp_all add: w1_def v_def)
  have first: "charger_sites t1 w = (w1, Inr v)"
    using a by (simp add: charger_sites_fetch w1_def v_def)
  have hit: "charger_sites t2 w1 = (w1, Inr v)" if "t2 - t1 < 60"
    using c that by (rule charger_sites_hit)
  have again: "charger_sites t2 w1 =
      (w1\<lparr>sites_cache := Some (t2, v), calls := calls w1 @ [Select_sites]\<rparr>, Inr v)"
    if "60 \<le> t2 - t1"
  proof -
    from that have "miss 60 t2 (sites_cache w1)" by (simp add: c miss_iff)
    from charger_sites_fetch[OF this on] show ?thesis by (simp add: d)
  qed
  from first hit again
  show "let v = select_sites (db w);
           w1 = w\<lparr>sites_cache := Some (t1, v), calls := calls w @ [Select_sites]\<rparr>
       in charger_sites t1 w = (w1, Inr v) \<and>
          (t2 - t1 < 60 \<longrightarrow> charger_sites t2 w1 = (w1, Inr v)) \<and>
          (60 \<le> t2 - t1 \<longrightarrow>
             charger_sites t2 w1 =
               (w1\<lparr>sites_cache := Some (t2, v), calls := calls w1 @ [Select_sites]\<rparr>, Inr v))"
    unfolding Let_def w1_def v_def by blast
next
  assume a: "miss 300 t1 (clients_cache w) \<and> online w"
  define c where "c = clients_dict (select_clients (db w))"
  define w1 where "w1 = w\<lparr>clients_cache := Some (t1, c), calls := calls w @ [Select_clients]\<rparr>"
  have e: "clients_cache w1 = Some (t1, c)" and on: "online w1"
    and d: "clients_dict (select_clients (db w1)) = c"
    using a by (simp_all add: w1_def c_def)
  have first: "charger_clients t1 w = (w1, Inr c)"
    using a by (simp add: charger_clients_fetch w1_def c_def)
  have hit: "charger_clients t2 w1 = (w1, Inr c)" if "t2 - t1 < 300"
    using e that by (rule charger_clients_hit)
  have again: "charger_clients t2 w1 =
      (w1\<lparr>clients_cache := Some (t2, c), calls := calls w1 @ [Select_clients]\<rparr>, Inr c)"
    if "300 \<le> t2 - t1"
  proof -
    from that have "miss 300 t2 (clients_cache w1)" by (simp add: e miss_iff)
    from charger_clients_fetch[OF this on] show ?thesis by (simp add: d)
  qed
  from first hit again
  show "let c = clients_dict (select_clients (db w));
           w1 = w\<lparr>clients_cache := Some (t1, c), calls := calls w @ [Select_clients]\<rparr>
       in charger_clients t1 w = (w1, Inr c) \<and>
          (t2 - t1 < 300 \<longrightarrow> charger_clients t2 w1 = (w1, Inr c)) \<and>
          (300 \<le> t2 - t1 \<longrightarrow>
             charger_clients t2 w1 =
               (w1\<lparr>clients_cache := Some (t2, c), calls := calls w1 @ [Select_clients]\<rparr>,
                Inr c))"
    unfolding Let_def w1_def c_def by blast
qed

lemma select_sites_world0: "select_sites store0 = [alpha, beta]"
  by (simp add: select_sites_def store0_def alpha_def beta_def hidden_def name_key_def)

theorem ttl_window_witness:
  "miss 60 0 (sites_cache world0) \<and> online world0 \<and>
   snd (charger_sites 0 world0) = Inr [alpha, beta] \<and>
   calls (fst (charger_sites 0 world0)) = [Select_sites] \<and>
   snd (charger_sites 30 (fst (charger_sites 0 world0))) = Inr [alpha, beta] \<and>
   calls (fst (charger_sites 30 (fst (charger_sites 0 world0)))) = [Select_sites] \<and>
   calls (fst (charger_sites 60 (fst (charger_sites 0 world0)))) = [Select_sites, Select_sites]"
proof -
  have m: "miss 60 0 (sites_cache world0) \<and> online world0"
    by (simp add: miss_def world0_def)
  have d: "select_sites (db world0) = [alpha, beta]"
    using select_sites_world0 by (simp add: world0_def)
  let ?w1 = "world0\<lparr>sites_cache := Some (0, [alpha, beta]), calls := calls world0 @ [Select_sites]\<rparr>"
  from ttl_window[of 0 world0 30] m
  have first: "charger_sites 0 world0 = (?w1, Inr [alpha, beta])"
    and second: "charger_sites 30 ?w1 = (?w1, Inr [alpha, beta])"
    by (simp_all add: Let_def d)
  from ttl_window[of 0 world0 60] m
  have third: "charger_sites 60 ?w1 =
     (?w1\<lparr>sites_cache := Some (60, [alpha, beta]), calls := calls ?w1 @ [Select_sites]\<rparr>,
      Inr [alpha, beta])"
    by (simp add: Let_def d)
  show ?thesis using m unfolding first by (simp add: second third) (simp add: world0_def)
qed

section \<open>Writes and invalidation: properties\<close>

lemma sauvegarder_site_ok:
  assumes "online w" "u_nominal_power data = Fin x"
  shows "sauvegarder_site i data w =
     (w\<lparr>db := (db w)\<lparr>sites_mapping := update_rows i data x (sites_mapping (db w))\<rparr>,
        sites_cache := None, calls := calls w @ [Update_call i, Clear_sites]\<rparr>,
      Inr (map (set_columns data x) (filter (\<lambda>s. site_id s = i) (sites_mapping (db w)))))"
  using assms by (simp add: sauvegarder_site_def gw_update_def charger_sites_clear_def Let_def)

lemma sauvegarder_site_fail:
  assumes "\<not> online w \<or> u_nominal_power data = NaN"
  shows "sauvegarder_site i data w = (w\<lparr>calls := calls w @ [Update_call i]\<rparr>, Inl Store_error)"
  using assms by (auto simp: sauvegarder_site_def gw_update_def Let_def split: pyfloat.splits)

lemma sauvegarder_site_cases:
  "(\<exists>x. online w \<and> u_nominal_power data = Fin x) \<or> (\<not> online w \<or> u_nominal_power data = NaN)"
  by (cases "u_nominal_power data") auto

lemma ajouter_site_ok:
  assumes "online w"
  shows "ajouter_site data w =
     (w\<lparr>db := (db w)\<lparr>sites_mapping := sites_mapping (db w) @ [new_row (db w) data],
                       next_id := next_id (db w) + 1\<rparr>,
        sites_cache := None, calls := calls w @ [Insert_call, Clear_sites]\<rparr>,
      Inr [new_row (db w) data])"
  using assms by (simp add: ajouter_site_def gw_insert_def charger_sites_clear_def Let_def)

lemma ajouter_site_fail:
  assumes "\<not> online w"
  shows "ajouter_site data w = (w\<lparr>calls := calls w @ [Insert_call]\<rparr>, Inl Store_error)"
  using assms by (simp add: ajouter_site_def gw_insert_def Let_def)

lemma set_select_sites: "set (select_sites d) = {s \<in> set (sites_mapping d). \<not> ignore_site s}"
  by (auto simp: select_sites_def)


lemma updated_row:
  assumes "s \<in> set (update_rows i data x rows)" "site_id s = i"
  shows "name s = Some (u_name data) \<and> code s = Some (u_code data) \<and>
         nominal_power s = Some x \<and> address s = Some (u_address data) \<and>
         commission_date s = u_commission_date data"
proof -
  from assms(1) obtain r where r: "r \<in> set rows"
    and s: "s = (if site_id r = i then set_columns data x r else r)"
    unfolding update_rows_def by (auto simp only: set_map image_iff)
  show ?thesis
  proof (cases "site_id r = i")
    case True
    with s have "s = set_columns data x r" by simp
    then show ?thesis by (simp add: set_columns_def)
  next
    case False
    with s assms(2) show ?thesis by simp
  qed
qed

text \<open>
  C2. When \<open>sauvegarder_site\<close> or \<open>ajouter_site\<close> returns, the write was followed by exactly one
  \<open>charger_sites.clear()\<close>: the sites cache is empty, the clients cache is untouched, and the
  next \<open>charger_sites\<close>, at any time, calls the gateway and returns the rows of the store as
  the write left them (every returned row with the updated id carries the new columns; the
  inserted row is returned unless the store marks it \<open>ignore_site\<close>).
\<close>

theorem write_invalidates:
  "(sauvegarder_site i data w = (w', Inr rows) \<longrightarrow>
      sites_cache w' = None \<and> clients_cache w' = clients_cache w \<and>
      calls w' = calls w @ [Update_call i, Clear_sites] \<and>
      (\<forall>now. charger_sites now w' =
         (w'\<lparr>sites_cache := Some (now, select_sites (db w')),
             calls := calls w' @ [Select_sites]\<rparr>,
          Inr (select_sites (db w')))) \<and>
      (\<forall>s \<in> set (select_sites (db w')). site_id s = i \<longrightarrow>
         name s = Some (u_name data) \<and> code s = Some (u_code data) \<and>
         map_option Fin (nominal_power s) = Some (u_nominal_power data) \<and>
         address s = Some (u_address data) \<and> commission_date s = u_commission_date data)) \<and>
   (ajouter_site data' w = (w', Inr rows) \<longrightarrow>
      sites_cache w' = None \<and> clients_cache w' = clients_cache w \<and>
      calls w' = calls w @ [Insert_call, Clear_sites] \<and>
      (\<forall>now. charger_sites now w' =
         (w'\<lparr>sites_cache := Some (now, select_sites (db w')),
             calls := calls w' @ [Select_sites]\<rparr>,
          Inr (select_sites (db w')))) \<and>
      (\<not> ignore_default (db w) \<longrightarrow> new_row (db w) data' \<in> set (select_sites (db w'))))"
proof (intro conjI impI)
  assume a: "sauvegarder_site i data w = (w', Inr rows)"
  have "\<not> (\<not> online w \<or> u_nominal_power data = NaN)"
    using a sauvegarder_site_fail[of w data i] by auto
  with sauvegarder_site_cases[of w data] obtain x where
    on: "online w" and x: "u_nominal_power data = Fin x"
    by blast
  from a have w': "w' = w\<lparr>db := (db w)\<lparr>sites_mapping := update_rows i data x (sites_mapping (db w))\<rparr>,
        sites_cache := None, calls := calls w @ [Update_call i, Clear_sites]\<rparr>"
    unfolding sauvegarder_site_ok[OF on x] by blast
  show "sites_cache w' = None" "clients_cache w' = clients_cache w"
    "calls w' = calls w @ [Update_call i, Clear_sites]"
    by (simp_all add: w')
  have "miss 60 now (sites_cache w')" "online w'" for now
    by (simp_all add: w' miss_def on)
  then show "\<forall>now. charger_sites now w' =
         (w'\<lparr>sites_cache := Some (now, select_sites (db w')),
             calls := calls w' @ [Select_sites]\<rparr>,
          Inr (select_sites (db w')))"
    by (simp add: charger_sites_fetch)
  show "\<forall>s \<in> set (select_sites (db w')). site_id s = i \<longrightarrow>
         name s = Some (u_name data) \<and> code s = Some (u_code data) \<and>
         map_option Fin (nominal_power s) = Some (u_nominal_power data) \<and>
         address s = Some (u_address data) \<and> commission_date s = u_commission_date data"
  proof (intro ballI impI)
    fix s assume "s \<in> set (select_sites (db w'))" "site_id s = i"
    then have "s \<in> set (update_rows i data x (sites_mapping (db w)))"
      by (simp add: set_select_sites w')
    from updated_row[OF this \<open>site_id s = i\<close>] x
    show "name s = Some (u_name data) \<and> code s = Some (u_code data) \<and>
         map_option Fin (nominal_power s) = Some (u_nominal_power data) \<and>
         address s = Some (u_address data) \<and> commission_date s = u_commission_date data"
      by simp
  qed
next
  assume a: "ajouter_site data' w = (w', Inr rows)"
  then have on: "online w" by (cases "online w") (simp_all add: ajouter_site_fail)
  from a have w': "w' = w\<lparr>db := (db w)\<lparr>sites_mapping := sites_mapping (db w) @ [new_row (db w) data'],
                       next_id := next_id (db w) + 1\<rparr>,
        sites_cache := None, calls := calls w @ [Insert_call, Clear_sites]\<rparr>"
    unfolding ajouter_site_ok[OF on] by blast
  show "sites_cache w' = None" "clients_cache w' = clients_cache w"
    "calls w' = calls w @ [Insert_call, Clear_sites]"
    by (simp_all add: w')
  have "miss 60 now (sites_cache w')" "online w'" for now
    by (simp_all add: w' miss_def on)
  then show "\<forall>now. charger_sites now w' =
         (w'\<lparr>sites_cache := Some (now, select_sites (db w')),
             calls := calls w' @ [Select_sites]\<rparr>,
          Inr (select_sites (db w')))"
    by (simp add: charger_sites_fetch)
  show "new_row (db w) data' \<in> set (select_sites (db w'))" if "\<not> ignore_default (db w)"
    using that by (simp add: set_select_sites w' new_row_def)
qed

theorem write_invalidates_witness:
  "sites_cache cached_world = Some (0, [alpha, beta]) \<and>
   sites_cache (fst (sauvegarder_site 1 power75 cached_world)) = None \<and>
   map nominal_power (select_sites (db (fst (sauvegarder_site 1 power75 cached_world)))) =
     [Some 75, Some 200] \<and>
   snd (charger_sites 10 (fst (sauvegarder_site 1 power75 cached_world))) =
     Inr (select_sites (db (fst (sauvegarder_site 1 power75 cached_world))))"
proof -
  have on: "online cached_world" and p: "u_nominal_power power75 = Fin 75"
    by (simp_all add: cached_world_def world0_def power75_def)
  obtain w' rows where ok: "sauvegarder_site 1 power75 cached_world = (w', Inr rows)"
    using sauvegarder_site_ok[OF on p] by blast
  from write_invalidates[of 1 power75 cached_world w' rows] ok
  have c: "sites_cache w' = None"
    and r: "charger_sites 10 w' =
         (w'\<lparr>sites_cache := Some (10, select_sites (db w')),
             calls := calls w' @ [Select_sites]\<rparr>,
          Inr (select_sites (db w')))"
    by blast+
  have d: "map nominal_power (select_sites (db (fst (sauvegarder_site 1 power75 cached_world)))) =
     [Some 75, Some 200]"
    unfolding sauvegarder_site_ok[OF on p]
    by (simp add: cached_world_def world0_def store0_def
        select_sites_def update_rows_def set_columns_def alpha_def beta_def hidden_def
        name_key_def power75_def)
  show ?thesis using c r d by (simp add: ok) (simp add: cached_world_def)
qed

section \<open>Forms and failures: properties\<close>

lemma form_edit_submit_fail:
  assumes "\<not> online w \<or> new_power ws = NaN"
  shows "form_edit_submit site ws w =
     (w\<lparr>calls := calls w @ [Update_call (site_id site)]\<rparr>, Continue [Error_update Store_error])"
proof -
  from assms have "\<not> online w \<or> u_nominal_power (update_data ws) = NaN"
    by (simp add: update_data_def)
  from sauvegarder_site_fail[OF this] show ?thesis by (simp add: form_edit_submit_def)
qed

lemma form_ajout_submit_fail:
  assumes "add_name aw \<noteq> []" "\<not> online w"
  shows "form_ajout_submit aw w =
     (w\<lparr>calls := calls w @ [Insert_call]\<rparr>, Continue [Error_insert Store_error])"
  using assms by (simp add: form_ajout_submit_def ajouter_site_fail)

lemma form_ajout_submit_ok:
  assumes "add_name aw \<noteq> []" "online w"
  shows "form_ajout_submit aw w =
     (w\<lparr>db := (db w)\<lparr>sites_mapping := sites_mapping (db w) @ [new_row (db w) (insert_data aw)],
                       next_id := next_id (db w) + 1\<rparr>,
        sites_cache := None, calls := calls w @ [Insert_call, Clear_sites]\<rparr>,
      Rerun [Success_insert (add_name aw)])"
  using assms by (simp add: form_ajout_submit_def ajouter_site_ok)

lemma main_sites_fail:
  assumes "\<not> online w" "miss 60 now (sites_cache w)"
  shows "main now u w =
     (w\<lparr>sites_cache := None, calls := calls w @ [Select_sites]\<rparr>, Uncaught Store_error [])"
  by (simp add: main_def charger_sites_fail[OF assms(2,1)])

lemma main_clients_fail:
  assumes "\<not> online w" "sites_cache w = Some (t, v)" "now - t < 60"
    "miss 300 now (clients_cache w)"
  shows "main now u w =
     (w\<lparr>clients_cache := None, calls := calls w @ [Select_clients]\<rparr>, Uncaught Store_error [])"
  by (simp add: main_def charger_sites_hit[OF assms(2,3)] charger_clients_fail[OF assms(4,1)])

text \<open>
  C6, as amended. A gateway failure of a write (the store cannot be reached, or an update
  carries a NaN power) is caught where the form calls it: the form shows an error message,
  the run goes on, and apart from the record of the call the session is unchanged, so the
  sites cache is not invalidated. A gateway failure of a read is not caught by the script:
  the exception leaves the run before anything is shown, whether it comes from
  \<open>charger_sites\<close> or from \<open>charger_clients\<close>.
\<close>

theorem write_failures_caught_read_failures_not:
  "(\<not> online w \<or> new_power ws = NaN \<longrightarrow>
      form_edit_submit site ws w =
        (w\<lparr>calls := calls w @ [Update_call (site_id site)]\<rparr>,
         Continue [Error_update Store_error])) \<and>
   (add_name aw \<noteq> [] \<and> \<not> online w \<longrightarrow>
      form_ajout_submit aw w =
        (w\<lparr>calls := calls w @ [Insert_call]\<rparr>, Continue [Error_insert Store_error])) \<and>
   (\<not> online w \<and> miss 60 now (sites_cache w) \<longrightarrow>
      main now u w =
        (w\<lparr>sites_cache := None, calls := calls w @ [Select_sites]\<rparr>,
         Uncaught Store_error [])) \<and>
   (\<not> online w \<and> sites_cache w = Some (t, v) \<and> now - t < 60 \<and>
    miss 300 now (clients_cache w) \<longrightarrow>
      main now u w =
        (w\<lparr>clients_cache := None, calls := calls w @ [Select_clients]\<rparr>,
         Uncaught Store_error []))"
  using form_edit_submit_fail[of w ws site] form_ajout_submit_fail[of aw w]
    main_sites_fail[of w now u] main_clients_fail[of w t v now u]
  by blast

text \<open>
  C6, as stated, fails on a read: with the store out of reach and nothing cached, the run
  ends with the uncaught exception and shows nothing.
\<close>

theorem read_failure_uncaught:
  "main 0 ui0 (world0\<lparr>online := False\<rparr>) =
     (world0\<lparr>online := False, calls := [Select_sites]\<rparr>, Uncaught Store_error [])"
  by (simp add: main_def charger_sites_def cache_data_def gw_select_sites_def world0_def)

text \<open>
  A run whose insert fails still shows the table of the cached sites, with the error
  message, and leaves both caches as they were.
\<close>

lemma failed_insert_keeps_page:
  "main 10 (ui0\<lparr>ui_action := Submit_add (name_only ''Gamma'')\<rparr>)
     (cached_world\<lparr>online := False, clients_cache := Some (0, acme)\<rparr>) =
   (cached_world\<lparr>online := False, clients_cache := Some (0, acme), calls := [Insert_call]\<rparr>,
    Page \<lparr>table = df [alpha, beta] acme, msgs = [Error_insert Store_error], rerun = False\<rparr>)"
proof -
  let ?w = "cached_world\<lparr>online := False, clients_cache := Some (0, acme)\<rparr>"
  let ?u = "ui0\<lparr>ui_action := Submit_add (name_only ''Gamma'')\<rparr>"
  have s: "charger_sites 10 ?w = (?w, Inr [alpha, beta])"
    by (rule charger_sites_hit[where t = 0]) (simp_all add: cached_world_def)
  have c: "charger_clients 10 ?w = (?w, Inr acme)"
    by (rule charger_clients_hit[where t = 0]) (simp_all add: cached_world_def)
  have f: "df_filtre (df [alpha, beta] acme)
      (selectbox tous (clients_uniques (df [alpha, beta] acme)) (ui_client ?u)) (Fin 0)
      (puissance_max (df [alpha, beta] acme)) = df [alpha, beta] acme"
    by (simp add: df_filtre_def df_def alpha_def beta_def acme_def power_column_def fillna_str_def
        series_map_def mk_view_def selectbox_def ui0_def puissance_max_def series_max_def
        or_float_def)
  have p: "puissance_max (df [alpha, beta] acme) = Fin 200"
    by (simp add: df_def alpha_def beta_def acme_def power_column_def fillna_str_def
        series_map_def mk_view_def puissance_max_def series_max_def or_float_def)
  have e: "tab_edit (df [alpha, beta] acme) ?u ?w = (?w, Continue [])"
    by (simp add: tab_edit_def sites_options_def site_label_def py_str_def df_def alpha_def
        beta_def acme_def power_column_def fillna_str_def series_map_def mk_view_def
        selectbox_def ui0_def form_edit_def number_input_def prefill_power_def or_float_def)
  have a: "tab_ajout ?u ?w = (?w\<lparr>calls := calls ?w @ [Insert_call]\<rparr>, Continue [Error_insert Store_error])"
    by (simp add: tab_ajout_def ui0_def form_ajout_submit_fail name_only_def)
  have t: "tabs (df [alpha, beta] acme) ?u ?w =
      (?w\<lparr>calls := calls ?w @ [Insert_call]\<rparr>,
       Page \<lparr>table = df [alpha, beta] acme, msgs = [Error_insert Store_error], rerun = False\<rparr>)"
    by (simp add: tabs_def e a)
  have "main 10 ?u ?w = tabs (df [alpha, beta] acme) ?u ?w"
    using f by (simp add: main_def s c Let_def number_input_def p ui0_def)
  with t show ?thesis by (simp add: cached_world_def world0_def)
qed

theorem write_failures_caught_read_failures_not_witness:
  "\<not> online (cached_world\<lparr>online := False\<rparr>) \<and>
   form_ajout_submit (name_only ''Gamma'') (cached_world\<lparr>online := False\<rparr>) =
     (cached_world\<lparr>online := False, calls := [Insert_call]\<rparr>,
      Continue [Error_insert Store_error]) \<and>
   sites_cache (fst (form_edit_submit (df [alpha, beta] acme ! 0)
       \<lparr>new_name = ''Alpha'', new_code = ''A1'', new_power = Fin 75, new_address = [],
        new_date = None\<rparr> (cached_world\<lparr>online := False\<rparr>))) = Some (0, [alpha, beta]) \<and>
   snd (main 100 ui0 (cached_world\<lparr>online := False\<rparr>)) = Uncaught Store_error []"
proof -
  let ?w = "cached_world\<lparr>online := False\<rparr>"
  have off: "\<not> online ?w" by simp
  have n: "add_name (name_only ''Gamma'') \<noteq> []" by (simp add: name_only_def)
  have m: "miss 60 100 (sites_cache ?w)" by (simp add: miss_def cached_world_def)
  note T = write_failures_caught_read_failures_not[of ?w _ _ "name_only ''Gamma''" 100 ui0]
  from T off n have a: "form_ajout_submit (name_only ''Gamma'') ?w =
     (?w\<lparr>calls := calls ?w @ [Insert_call]\<rparr>, Continue [Error_insert Store_error])"
    by blast
  from T off have e: "form_edit_submit site ws ?w =
        (?w\<lparr>calls := calls ?w @ [Update_call (site_id site)]\<rparr>,
         Continue [Error_update Store_error])" for site ws
    by blast
  from T off m have r: "main 100 ui0 ?w =
        (?w\<lparr>sites_cache := None, calls := calls ?w @ [Select_sites]\<rparr>,
         Uncaught Store_error [])"
    by blast
  show ?thesis unfolding a e r by (simp add: cached_world_def world0_def)
qed

text \<open>
  C8. A submission of the add form with an empty name shows the message that the name is
  required and leaves the session as it was: no gateway call, no cache entry dropped. With
  a non-empty name the insert is issued (and, when it succeeds, the sites cache cleared).
\<close>

theorem name_required:
  "(add_name aw = [] \<longrightarrow> form_ajout_submit aw w = (w, Continue [Error_name_required])) \<and>
   (add_name aw \<noteq> [] \<longrightarrow>
      calls (fst (form_ajout_submit aw w)) =
        calls w @ (if online w then [Insert_call, Clear_sites] else [Insert_call]))"
  using form_ajout_submit_ok[of aw w] form_ajout_submit_fail[of aw w]
  by (cases "online w") (simp_all add: form_ajout_submit_def)

theorem name_required_witness:
  "form_ajout_submit (name_only []) world0 = (world0, Continue [Error_name_required]) \<and>
   calls (fst (form_ajout_submit (name_only ''Gamma'') world0)) = [Insert_call, Clear_sites]"
proof -
  have e: "add_name (name_only []) = []" and n: "add_name (name_only ''Gamma'') \<noteq> []"
    by (simp_all add: name_only_def)
  from name_required[of "name_only []" world0] e
  have a: "form_ajout_submit (name_only []) world0 = (world0, Continue [Error_name_required])"
    by blast
  from name_required[of "name_only ''Gamma''" world0] n
  have "calls (fst (form_ajout_submit (name_only ''Gamma'') world0)) =
        calls world0 @ (if online world0 then [Insert_call, Clear_sites] else [Insert_call])"
    by blast
  with a show ?thesis by (simp add: world0_def)
qed

lemma null_power_effective:
  assumes "i < length rows" "nominal_power (rows ! i) = None"
  shows "fillna0 (nominal_power (df rows cl ! i)) = Fin 0"
proof -
  have "power_column (map nominal_power rows) ! i = None \<or>
        power_column (map nominal_power rows) ! i = Some NaN"
    using assms by (auto simp: power_column_def)
  then show ?thesis using assms(1) by (auto simp: df_nth mk_view_def)
qed

text \<open>
  C7. Submitting the add form with a name and nothing else inserts a row with that name and
  null \<open>code\<close>, \<open>nominal_power\<close>, \<open>address\<close>, \<open>commission_date\<close> and \<open>client_map_id\<close>; in any
  collection that holds this row, its power counts as 0 for the range filter.
\<close>

theorem insert_name_only:
  assumes "n \<noteq> []" "online w"
  shows "form_ajout_submit (name_only n) w =
       (w\<lparr>db := (db w)\<lparr>sites_mapping :=
                          sites_mapping (db w) @ [new_row (db w) (insert_data (name_only n))],
                        next_id := next_id (db w) + 1\<rparr>,
          sites_cache := None, calls := calls w @ [Insert_call, Clear_sites]\<rparr>,
        Rerun [Success_insert n]) \<and>
     name (new_row (db w) (insert_data (name_only n))) = Some n \<and>
     code (new_row (db w) (insert_data (name_only n))) = None \<and>
     nominal_power (new_row (db w) (insert_data (name_only n))) = None \<and>
     address (new_row (db w) (insert_data (name_only n))) = None \<and>
     commission_date (new_row (db w) (insert_data (name_only n))) = None \<and>
     client_map_id (new_row (db w) (insert_data (name_only n))) = None \<and>
     (\<forall>rows cl i. i < length rows \<and> rows ! i = new_row (db w) (insert_data (name_only n)) \<longrightarrow>
        fillna0 (nominal_power (df rows cl ! i)) = Fin 0 \<and> effective_power (df rows cl ! i) = 0)"
proof -
  let ?r = "new_row (db w) (insert_data (name_only n))"
  have fields: "name ?r = Some n" "code ?r = None" "nominal_power ?r = None" "address ?r = None"
    "commission_date ?r = None" "client_map_id ?r = None"
    by (simp_all add: new_row_def insert_data_def name_only_def str_or_None_def num_or_None_def)
  have n': "add_name (name_only n) \<noteq> []" using assms(1) by (simp add: name_only_def)
  have sub: "form_ajout_submit (name_only n) w =
       (w\<lparr>db := (db w)\<lparr>sites_mapping := sites_mapping (db w) @ [?r],
                        next_id := next_id (db w) + 1\<rparr>,
          sites_cache := None, calls := calls w @ [Insert_call, Clear_sites]\<rparr>,
        Rerun [Success_insert n])"
    using form_ajout_submit_ok[OF n' assms(2)] by (simp add: name_only_def)
  have eff: "fillna0 (nominal_power (df rows cl ! i)) = Fin 0 \<and> effective_power (df rows cl ! i) = 0"
    if "i < length rows \<and> rows ! i = ?r" for rows cl i
  proof -
    from that fields(3) have "fillna0 (nominal_power (df rows cl ! i)) = Fin 0"
      by (simp add: null_power_effective)
    then show ?thesis by (simp add: fillna0_effective)
  qed
  from sub fields eff show ?thesis by blast
qed

theorem insert_name_only_witness:
  "''Gamma'' \<noteq> [] \<and> online world0 \<and>
   sites_mapping (db (fst (form_ajout_submit (name_only ''Gamma'') world0))) =
     [alpha, beta, hidden,
      \<lparr>site_id = 4, name = Some ''Gamma'', code = None, nominal_power = None, address = None,
       commission_date = None, client_map_id = None, ignore_site = False\<rparr>]"
proof -
  have h: "''Gamma'' \<noteq> []" "online world0" by (simp_all add: world0_def)
  from insert_name_only[OF h]
  have "form_ajout_submit (name_only ''Gamma'') world0 =
       (world0\<lparr>db := (db world0)\<lparr>sites_mapping :=
                          sites_mapping (db world0) @ [new_row (db world0) (insert_data (name_only ''Gamma''))],
                        next_id := next_id (db world0) + 1\<rparr>,
          sites_cache := None, calls := calls world0 @ [Insert_call, Clear_sites]\<rparr>,
        Rerun [Success_insert ''Gamma''])"
    by blast
  then show ?thesis
    by (simp add: world0_def store0_def new_row_def insert_data_def name_only_def
        str_or_None_def num_or_None_def)
qed

section \<open>The working set: properties\<close>

lemma select_sites_clean: "list_all (\<lambda>s. \<not> ignore_site s) (select_sites d)"
  by (simp add: list_all_iff set_select_sites)

lemma charger_sites_clean:
  assumes "cache_clean w" "charger_sites now w = (w', r)"
  shows "cache_clean w' \<and> (\<forall>rows. r = Inr rows \<longrightarrow> list_all (\<lambda>s. \<not> ignore_site s) rows)"
proof (cases "miss 60 now (sites_cache w)")
  case True
  show ?thesis
  proof (cases "online w")
    case True
    with charger_sites_fetch[OF \<open>miss 60 now (sites_cache w)\<close> True] assms(2)
    show ?thesis by (auto simp: cache_clean_def select_sites_clean)
  next
    case False
    with charger_sites_fail[OF \<open>miss 60 now (sites_cache w)\<close> False] assms(2)
    show ?thesis by (auto simp: cache_clean_def)
  qed
next
  case False
  then obtain t v where c: "sites_cache w = Some (t, v)" and f: "now - t < 60"
    by (auto simp: miss_def split: option.splits)
  from charger_sites_hit[OF c f] assms show ?thesis
    by (auto simp: cache_clean_def c)
qed

lemma charger_clients_sites_cache:
  "sites_cache (fst (charger_clients now w)) = sites_cache w"
proof (cases "miss 300 now (clients_cache w)")
  case True
  then show ?thesis
    by (cases "online w") (simp_all add: charger_clients_fetch charger_clients_fail)
next
  case False
  then obtain t v where c: "clients_cache w = Some (t, v)" and f: "now - t < 300"
    by (auto simp: miss_def split: option.splits)
  from charger_clients_hit[OF c f] show ?thesis by simp
qed

lemma sauvegarder_site_clean:
  assumes "cache_clean w"
  shows "cache_clean (fst (sauvegarder_site i data w))"
proof (cases "\<not> online w \<or> u_nominal_power data = NaN")
  case True
  from sauvegarder_site_fail[OF True] assms show ?thesis by (simp add: cache_clean_def)
next
  case False
  with sauvegarder_site_cases[of w data] obtain x where
    "online w" "u_nominal_power data = Fin x" by blast
  from sauvegarder_site_ok[OF this] show ?thesis by (simp add: cache_clean_def)
qed

lemma ajouter_site_clean:
  assumes "cache_clean w"
  shows "cache_clean (fst (ajouter_site data w))"
  using assms by (cases "online w") (simp_all add: ajouter_site_ok ajouter_site_fail cache_clean_def)

lemma form_edit_submit_clean:
  assumes "cache_clean w"
  shows "cache_clean (fst (form_edit_submit site ws w))"
  using sauvegarder_site_clean[OF assms, of "site_id site" "update_data ws"]
  by (cases "sauvegarder_site (site_id site) (update_data ws) w")
     (auto simp: form_edit_submit_def split: sum.splits)

lemma form_ajout_submit_clean:
  assumes "cache_clean w"
  shows "cache_clean (fst (form_ajout_submit aw w))"
  using ajouter_site_clean[OF assms, of "insert_data aw"] assms
  by (cases "ajouter_site (insert_data aw) w")
     (auto simp: form_ajout_submit_def split: sum.splits)

lemma tab_edit_clean:
  assumes "cache_clean w"
  shows "cache_clean (fst (tab_edit shown u w))"
  using assms form_edit_submit_clean[OF assms]
  by (simp add: tab_edit_def split: list.splits option.splits sum.splits action.splits)

lemma tab_ajout_clean:
  assumes "cache_clean w"
  shows "cache_clean (fst (tab_ajout u w))"
  using assms form_ajout_submit_clean[OF assms]
  by (simp add: tab_ajout_def split: action.splits)

lemma tabs_clean:
  assumes "cache_clean w"
  shows "cache_clean (fst (tabs shown u w))"
proof -
  have 1: "cache_clean (fst (tab_edit shown u w))" by (rule tab_edit_clean[OF assms])
  have 2: "cache_clean (fst (tab_ajout u (fst (tab_edit shown u w))))"
    by (rule tab_ajout_clean[OF 1])
  show ?thesis using 1 2
    by (cases "tab_edit shown u w"; cases "tab_ajout u (fst (tab_edit shown u w))")
       (auto simp: tabs_def split: flow.splits)
qed

lemma tabs_shown:
  "(case snd (tabs shown u w) of
      Page p \<Rightarrow> table p = shown | Uncaught e xs \<Rightarrow> xs = shown | Stopped m \<Rightarrow> False)"
  by (cases "tab_edit shown u w"; cases "tab_ajout u (fst (tab_edit shown u w))")
     (auto simp: tabs_def split: flow.splits)

lemma df_clean:
  assumes "list_all (\<lambda>s. \<not> ignore_site s) sites"
  shows "list_all (\<lambda>v. \<not> ignore_site v) (df sites cl)"
  using assms by (auto simp: list_all_length length_df df_nth mk_view_def)

lemma df_filtre_subset: "set (df_filtre d c lo hi) \<subseteq> set d"
  by (auto simp: df_filtre_def Let_def)

lemma df_filtre_clean:
  assumes "list_all (\<lambda>v. \<not> ignore_site v) d"
  shows "list_all (\<lambda>v. \<not> ignore_site v) (df_filtre d c lo hi)"
  using assms df_filtre_subset[of d c lo hi] by (auto simp: list_all_iff)

text \<open>What a run of the script does to the cache and what it shows.\<close>

lemma main_clean:
  assumes "cache_clean w"
  shows "cache_clean (fst (main now u w)) \<and>
     (case snd (main now u w) of
        Page p \<Rightarrow> list_all (\<lambda>v. \<not> ignore_site v) (table p)
      | Uncaught e xs \<Rightarrow> list_all (\<lambda>v. \<not> ignore_site v) xs
      | Stopped m \<Rightarrow> True)"
proof -
  obtain w1 r1 where s: "charger_sites now w = (w1, r1)" by (cases "charger_sites now w")
  from charger_sites_clean[OF assms s]
  have c1: "cache_clean w1" and rows: "\<And>rows. r1 = Inr rows \<Longrightarrow> list_all (\<lambda>s. \<not> ignore_site s) rows"
    by auto
  show ?thesis
  proof (cases r1)
    case (Inl e)
    with s c1 show ?thesis by (simp add: main_def)
  next
    case (Inr sites)
    obtain w2 r2 where c: "charger_clients now w1 = (w2, r2)" by (cases "charger_clients now w1")
    have c2: "cache_clean w2"
      using charger_clients_sites_cache[of now w1] c c1 by (simp add: cache_clean_def)
    show ?thesis
    proof (cases r2)
      case (Inl e)
      with s c \<open>r1 = Inr sites\<close> c2 show ?thesis by (simp add: main_def)
    next
      case (Inr cl)
      show ?thesis
      proof (cases "sites = []")
        case True
        with s c \<open>r1 = Inr sites\<close> \<open>r2 = Inr cl\<close> c2 show ?thesis by (simp add: main_def)
      next
        case False
        let ?d = "df sites cl"
        have d: "list_all (\<lambda>v. \<not> ignore_site v) ?d"
          by (rule df_clean) (rule rows[OF \<open>r1 = Inr sites\<close>])
        have m: "main now u w =
          (case number_input 0 (Fin 0) (ui_min u) of
             Inl e \<Rightarrow> (w2, Uncaught e [])
           | Inr pmin \<Rightarrow>
               (case number_input 0 (puissance_max ?d) (ui_max u) of
                  Inl e \<Rightarrow> (w2, Uncaught e [])
                | Inr pmax \<Rightarrow>
                    tabs (df_filtre ?d (selectbox tous (clients_uniques ?d) (ui_client u)) pmin pmax) u w2))"
          using s c \<open>r1 = Inr sites\<close> \<open>r2 = Inr cl\<close> False by (simp add: main_def Let_def)
        show ?thesis
        proof (cases "number_input 0 (Fin 0) (ui_min u)")
          case (Inl e)
          with m c2 show ?thesis by simp
        next
          case pmin: (Inr pmin)
          show ?thesis
          proof (cases "number_input 0 (puissance_max ?d) (ui_max u)")
            case (Inl e)
            with m pmin c2 show ?thesis by simp
          next
            case (Inr pmax)
            let ?shown = "df_filtre ?d (selectbox tous (clients_uniques ?d) (ui_client u)) pmin pmax"
            have sh: "list_all (\<lambda>v. \<not> ignore_site v) ?shown" by (rule df_filtre_clean[OF d])
            have mm: "main now u w = tabs ?shown u w2" using m pmin Inr by simp
            from tabs_clean[OF c2, of ?shown u] tabs_shown[of ?shown u w2] sh
            show ?thesis unfolding mm by (auto split: outcome.splits)
          qed
        qed
      qed
    qed
  qed
qed

lemma reachable_clean: "reachable w \<Longrightarrow> cache_clean w"
proof (induction rule: reachable.induct)
  case (start d b)
  show ?case by (simp add: cache_clean_def)
next
  case (outside w d b)
  then show ?case by (simp add: cache_clean_def)
next
  case (run w now u)
  then show ?case using main_clean by blast
qed

text \<open>
  C9. In every state a session can reach, whatever \<open>charger_sites\<close> returns holds no row
  with \<open>ignore_site\<close> set, and neither do the DataFrame assembled from it, any filtered
  DataFrame, or the table a run of the script shows.
\<close>

theorem working_set_clean:
  assumes "reachable w"
  shows "(\<forall>w' rows. charger_sites now w = (w', Inr rows) \<longrightarrow>
            (\<forall>s \<in> set rows. \<not> ignore_site s) \<and>
            (\<forall>v \<in> set (df rows cl). \<not> ignore_site v) \<and>
            (\<forall>v \<in> set (df_filtre (df rows cl) c lo hi). \<not> ignore_site v)) \<and>
         (\<forall>w' p. main now u w = (w', Page p) \<longrightarrow> (\<forall>v \<in> set (table p). \<not> ignore_site v)) \<and>
         (\<forall>w' e xs. main now u w = (w', Uncaught e xs) \<longrightarrow> (\<forall>v \<in> set xs. \<not> ignore_site v))"
proof -
  have cl: "cache_clean w" by (rule reachable_clean[OF assms])
  have a: "(\<forall>s \<in> set rows. \<not> ignore_site s) \<and>
            (\<forall>v \<in> set (df rows cl). \<not> ignore_site v) \<and>
            (\<forall>v \<in> set (df_filtre (df rows cl) c lo hi). \<not> ignore_site v)"
    if "charger_sites now w = (w', Inr rows)" for w' rows
  proof -
    from charger_sites_clean[OF cl that] have r: "list_all (\<lambda>s. \<not> ignore_site s) rows" by simp
    from df_clean[OF r, of cl] df_filtre_clean[OF df_clean[OF r, of cl], of c lo hi] r
    show ?thesis by (simp add: list_all_iff)
  qed
  have b: "\<forall>v \<in> set (table p). \<not> ignore_site v" if "main now u w = (w', Page p)" for w' p
    using main_clean[OF cl, of now u] that by (simp add: list_all_iff)
  have c: "\<forall>v \<in> set xs. \<not> ignore_site v" if "main now u w = (w', Uncaught e xs)" for w' e xs
    using main_clean[OF cl, of now u] that by (simp add: list_all_iff)
  from a b c show ?thesis by blast
qed

theorem working_set_clean_witness:
  "reachable world0 \<and> ignore_site hidden \<and> hidden \<in> set (sites_mapping (db world0)) \<and>
   snd (charger_sites 0 world0) = Inr [alpha, beta] \<and> \<not> ignore_site alpha \<and> \<not> ignore_site beta"
proof -
  have r: "reachable world0" unfolding world0_def by (rule reachable.start)
  have m: "miss 60 0 (sites_cache world0)" "online world0" by (simp_all add: miss_def world0_def)
  have s: "charger_sites 0 world0 =
     (world0\<lparr>sites_cache := Some (0, [alpha, beta]), calls := calls world0 @ [Select_sites]\<rparr>,
      Inr [alpha, beta])"
    using charger_sites_fetch[OF m] select_sites_world0 by (simp add: world0_def)
  from working_set_clean[OF r, of 0] s have "\<forall>s \<in> set [alpha, beta]. \<not> ignore_site s" by blast
  then have "\<not> ignore_site alpha \<and> \<not> ignore_site beta" by simp
  with r s show ?thesis by (simp add: world0_def store0_def hidden_def)
qed

section \<open>The edit form: properties\<close>

text \<open>
  A power cell that is None pre-fills 0; a cell that is NaN pre-fills NaN. Null texts
  pre-fill the empty string, which an unchanged submission writes back.
\<close>

lemma prefill_power_None: "nominal_power site = None \<Longrightarrow> prefill_power site = Fin 0"
  by (simp add: prefill_power_def or_float_def)

lemma prefill_power_NaN: "nominal_power site = Some NaN \<Longrightarrow> prefill_power site = NaN"
  by (simp add: prefill_power_def or_float_def)

lemma form_edit_unchanged_text:
  assumes "form_edit site unchanged = Inr ws"
  shows "new_name ws = or_str (name site) [] \<and> new_code ws = or_str (code site) [] \<and>
         new_address ws = or_str (address site) [] \<and> new_power ws = prefill_power site"
  using assms
  by (auto simp: form_edit_def number_input_def unchanged_def widget_def split: if_splits)

lemma form_edit_unchanged_null_text:
  assumes "form_edit site unchanged = Inr ws"
  shows "(name site = None \<longrightarrow> u_name (update_data ws) = []) \<and>
         (code site = None \<longrightarrow> u_code (update_data ws) = []) \<and>
         (address site = None \<longrightarrow> u_address (update_data ws) = []) \<and>
         (nominal_power site = None \<longrightarrow> u_nominal_power (update_data ws) = Fin 0)"
  using form_edit_unchanged_text[OF assms]
  by (simp add: update_data_def prefill_power_None)

text \<open>
  C10. The edit form should pre-fill 0 for a site without power and write 0.0 back when
  submitted unchanged. In a collection where another site has a power, the missing power
  is NaN in the DataFrame; \<open>NaN or 0\<close> is NaN, so the form is pre-filled with NaN and the
  unchanged submission carries NaN, not 0.0. (The texts are pre-filled with the empty
  string, as claimed.)
\<close>

theorem edit_prefill_power_NaN:
  "nominal_power (beta\<lparr>nominal_power := None\<rparr>) = None \<and>
   prefill_power (df [alpha, beta\<lparr>nominal_power := None\<rparr>] acme ! 1) = NaN \<and>
   form_edit (df [alpha, beta\<lparr>nominal_power := None\<rparr>] acme ! 1) unchanged =
     Inr \<lparr>new_name = ''Beta'', new_code = [], new_power = NaN, new_address = [],
          new_date = None\<rparr> \<and>
   u_nominal_power (update_data \<lparr>new_name = ''Beta'', new_code = [], new_power = NaN,
       new_address = [], new_date = None\<rparr>) = NaN"
  by (simp add: df_def alpha_def beta_def acme_def power_column_def fillna_str_def
      series_map_def mk_view_def prefill_power_def or_float_def form_edit_def number_input_def
      unchanged_def widget_def prefill_date_def update_data_def)

end
